theory Spec2Isabelle
  imports Complex_Main
begin

section \<open>Python values shared by the models\<close>

text \<open>
  The exceptions the modelled code can raise. A function of the source that can raise
  returns \<open>py_error + 'a\<close>, with \<open>Inl\<close> for the exception; a \<open>try ... except\<close> of the
  source is a case distinction on that sum.
\<close>

datatype py_error =
    AttributeError
  | TypeError
  | ZeroDivisionError
  | RuntimeError string
  | NotImplementedError

text \<open>
  \<open>str.rstrip(chars)\<close>: the string without its longest suffix made of characters of
  \<open>chars\<close>. \<open>x or y\<close> on an \<open>Optional[str]\<close>: \<open>None\<close> and the empty string are falsy.
\<close>

definition rstrip :: "string \<Rightarrow> string \<Rightarrow> string" where
  "rstrip s chars = rev (dropWhile (\<lambda>c. c \<in> set chars) (rev s))"

definition truthy :: "string option \<Rightarrow> bool" where
  "truthy v = (case v of None \<Rightarrow> False | Some s \<Rightarrow> s \<noteq> [])"

definition py_or :: "string option \<Rightarrow> string \<Rightarrow> string" where
  "py_or v d = (case v of None \<Rightarrow> d | Some s \<Rightarrow> if s \<noteq> [] then s else d)"

section \<open>apiclient/base.py: the objects of Qt and QGIS the code touches\<close>

text \<open>
  \<open>QNetworkRequest.RedirectPolicy\<close>, with Qt's names. Qt documents
  \<open>NoLessSafeRedirectPolicy\<close> as the policy that follows a redirect only when it is not
  less safe than the request (http to http, http to https, https to https).
\<close>

datatype RedirectPolicy =
    ManualRedirectPolicy
  | NoLessSafeRedirectPolicy
  | SameOriginRedirectPolicy
  | UserVerifiedRedirectPolicy

record QNetworkRequest =
  url :: string
  raw_headers :: "(string \<times> string) list"

text \<open>
  The handle \<open>get\<close> and \<open>post\<close> return: the \<open>requestId\<close> property QGIS attaches to it,
  and the bytes \<open>readAll()\<close> yields once the reply has finished.
\<close>

record QNetworkReply =
  requestId_property :: int
  readAll :: string

text \<open>
  What a finished request was: a failure of the transport with its description, or an
  HTTP response with its status code and reason phrase.
\<close>

datatype reply_outcome =
    TransportFailure string
  | HttpResponse int string

text \<open>The argument of the shared \<open>finished\<close> signal.\<close>

record QgsNetworkReplyContent =
  requestId :: int
  outcome :: reply_outcome
  content :: string

record ParsedNetworkReply =
  http_status_code :: "int option"
  http_status_reason :: "string option"
  qt_error :: "string option"

text \<open>
  The process-wide \<open>QgsNetworkAccessManager.instance()\<close>: its redirect policy, and the
  objects whose \<open>_request_done\<close> is connected to its \<open>finished\<close> signal, one entry per
  connection. An object is named by a number, as Python names it by identity.
\<close>

record QgsNetworkAccessManager =
  redirectPolicy :: RedirectPolicy
  finished_slots :: "nat list"

datatype QDomElement = QDomElement (tagName: string) (childElements: "QDomElement list")

text \<open>A document; \<open>None\<close> is the null element \<open>isNull()\<close> answers \<open>True\<close> for.\<close>

record QDomDocument =
  documentElement :: "QDomElement option"


text \<open>
  The functions of \<open>utils\<close>, QGIS and Qt that the code calls and this repository's files
  do not hold, as parameters: the authentication manager's \<open>updateNetworkRequest\<close>
  (which changes the request in place), \<open>parse_network_reply\<close>, the access manager's
  \<open>get\<close> and \<open>post\<close> (the reply handle each returns), and \<open>QDomDocument.setContent\<close>
  (whether its return value is truthy, and the document it leaves; or the exception of
  the binding).
\<close>

record platform =
  updateNetworkRequest :: "QNetworkRequest \<Rightarrow> string \<Rightarrow> QNetworkRequest"
  parse_reply :: "QgsNetworkReplyContent \<Rightarrow> ParsedNetworkReply"
  nam_get :: "QNetworkRequest \<Rightarrow> QNetworkReply"
  nam_post :: "QNetworkRequest \<Rightarrow> string \<Rightarrow> QNetworkReply"
  setContent :: "string option \<Rightarrow> bool \<Rightarrow> py_error + (bool \<times> QDomDocument)"


section \<open>apiclient/base.py: MyNetworkFetcherTask\<close>

definition reply_matches :: "QgsNetworkReplyContent \<Rightarrow> QNetworkReply \<Rightarrow> bool" where
  "reply_matches qgis_reply qt_reply =
     (let reply_id = requestId_property qt_reply in requestId qgis_reply = reply_id)"

text \<open>The task's fields; \<open>reply\<close> is the source's \<open>_reply\<close>.\<close>

record MyNetworkFetcherTask =
  authcfg :: "string option"
  description :: string
  request :: QNetworkRequest
  request_payload :: "string option"
  reply_content :: "string option"
  parsed_reply :: "ParsedNetworkReply option"
  redirect_policy :: RedirectPolicy
  reply :: "QNetworkReply option"

datatype task_signal = request_finished | request_parsed

text \<open>
  \<open>__init__\<close>, for the object \<open>self\<close>. An argument left out is \<open>None\<close> here and takes
  the default of the signature. The constructor writes the task's policy into the
  shared access manager and connects the task to its \<open>finished\<close> signal.
\<close>

definition task_init ::
  "nat \<Rightarrow> QNetworkRequest \<Rightarrow> string option \<Rightarrow> string option \<Rightarrow> string option \<Rightarrow>
   RedirectPolicy option \<Rightarrow> QgsNetworkAccessManager \<Rightarrow>
   MyNetworkFetcherTask \<times> QgsNetworkAccessManager" where
  "task_init self request_arg request_payload_arg authcfg_arg description_arg
     redirect_policy_arg network_access_manager =
     (let policy = (case redirect_policy_arg of
                      None \<Rightarrow> NoLessSafeRedirectPolicy | Some p \<Rightarrow> p);
          task = \<lparr> authcfg = authcfg_arg,
                   description = (case description_arg of
                                    None \<Rightarrow> ''MyNetworkfetcherTask'' | Some d \<Rightarrow> d),
                   request = request_arg,
                   request_payload = request_payload_arg,
                   reply_content = None,
                   parsed_reply = None,
                   redirect_policy = policy,
                   reply = None \<rparr>
      in (task,
          network_access_manager
            \<lparr> redirectPolicy := redirect_policy task,
              finished_slots := finished_slots network_access_manager @ [self] \<rparr>))"

text \<open>
  \<open>_request_done\<close>, the slot of the shared \<open>finished\<close> signal: the task after the
  delivery and the signals it emitted. The calls of \<open>log\<close> are left out.
\<close>

definition request_done ::
  "platform \<Rightarrow> MyNetworkFetcherTask \<Rightarrow> QgsNetworkReplyContent \<Rightarrow>
   MyNetworkFetcherTask \<times> task_signal list" where
  "request_done env task qgis_reply =
     (case reply task of
        None \<Rightarrow> (task, [])
      | Some r \<Rightarrow>
          if reply_matches qgis_reply r
          then (task\<lparr> reply_content := Some (readAll r),
                     parsed_reply := Some (parse_reply env qgis_reply) \<rparr>,
                [request_parsed])
          else (task, []))"

text \<open>
  \<open>wait_for_signal\<close>. The nested \<open>QEventLoop\<close> has its \<open>quit\<close> connected to the awaited
  signal and to a single-shot timer of \<open>timeout\<close> milliseconds, started when the body
  of the \<open>with\<close> statement has run. \<open>exec_\<close> (here \<open>exec_loop\<close>) hands the deliveries of the shared
  \<open>finished\<close> signal to the task's slot in the order they arrive; each carries its
  arrival time in milliseconds after the timer's start. The loop returns after the
  delivery during which the awaited signal was emitted, or when the next delivery
  would arrive no earlier than the timer fires, or when none is left (the timer
  fires then), whichever comes first.
\<close>

datatype loop_exit = SignalEmitted | TimerFired

record loop_result =
  quit_by :: loop_exit
  quit_at :: nat
  task_after :: MyNetworkFetcherTask
  emitted :: "task_signal list"

fun exec_loop ::
  "platform \<Rightarrow> task_signal \<Rightarrow> nat \<Rightarrow> MyNetworkFetcherTask \<Rightarrow>
   (nat \<times> QgsNetworkReplyContent) list \<Rightarrow> loop_result" where
  "exec_loop env signal timeout task [] =
     \<lparr> quit_by = TimerFired, quit_at = timeout, task_after = task, emitted = [] \<rparr>"
| "exec_loop env signal timeout task ((arrival, qgis_reply) # deliveries) =
     (if timeout \<le> arrival
      then \<lparr> quit_by = TimerFired, quit_at = timeout, task_after = task, emitted = [] \<rparr>
      else case request_done env task qgis_reply of
             (task', signals) \<Rightarrow>
               if signal \<in> set signals
               then \<lparr> quit_by = SignalEmitted, quit_at = arrival, task_after = task',
                      emitted = signals \<rparr>
               else let later = exec_loop env signal timeout task' deliveries
                    in later\<lparr> emitted := signals @ emitted later \<rparr>)"

definition wait_for_signal ::
  "platform \<Rightarrow> task_signal \<Rightarrow> nat \<Rightarrow> (MyNetworkFetcherTask \<Rightarrow> MyNetworkFetcherTask) \<Rightarrow>
   MyNetworkFetcherTask \<Rightarrow> (nat \<times> QgsNetworkReplyContent) list \<Rightarrow> loop_result" where
  "wait_for_signal env signal timeout body task deliveries =
     exec_loop env signal timeout (body task) deliveries"

definition default_timeout :: nat where
  "default_timeout = 10000"

text \<open>
  For the statements below: the first delivery that matches the reply \<open>r\<close> among the
  deliveries the loop hands over before the timer fires, if there is one.
\<close>

definition first_match ::
  "nat \<Rightarrow> QNetworkReply \<Rightarrow> (nat \<times> QgsNetworkReplyContent) list \<Rightarrow>
   (nat \<times> QgsNetworkReplyContent) option" where
  "first_match timeout r deliveries =
     find (\<lambda>(arrival, qgis_reply). reply_matches qgis_reply r)
       (takeWhile (\<lambda>(arrival, qgis_reply). arrival < timeout) deliveries)"

text \<open>
  \<open>run\<close>. Its parts, in the order of the source: the request is handed to the
  authentication manager when \<open>authcfg\<close> is not \<open>None\<close>; the body of the \<open>with\<close>
  statement issues the GET or the POST and binds \<open>_reply\<close>; the \<open>try\<close> block reads
  \<open>parsed_reply.qt_error\<close> and calls \<open>_reply.deleteLater()\<close>, each an \<open>AttributeError\<close>
  on \<open>None\<close>; the handler of \<open>except AttributeError\<close> sets the result to \<open>False\<close>; the
  task is disconnected from the shared signal (PyQt raises \<open>TypeError\<close> when there is
  no such connection) and \<open>request_finished\<close> is emitted. A task that is not connected
  receives no delivery.
\<close>

definition authenticate :: "platform \<Rightarrow> MyNetworkFetcherTask \<Rightarrow> MyNetworkFetcherTask" where
  "authenticate env task =
     (case authcfg task of
        None \<Rightarrow> task
      | Some a \<Rightarrow> task\<lparr> request := updateNetworkRequest env (request task) a \<rparr>)"

definition send_request :: "platform \<Rightarrow> MyNetworkFetcherTask \<Rightarrow> QNetworkReply" where
  "send_request env task =
     (case request_payload task of
        None \<Rightarrow> nam_get env (request task)
      | Some payload \<Rightarrow> nam_post env (request task) payload)"

definition issue_request :: "platform \<Rightarrow> MyNetworkFetcherTask \<Rightarrow> MyNetworkFetcherTask" where
  "issue_request env task = task\<lparr> reply := Some (send_request env task) \<rparr>"

definition run_try :: "MyNetworkFetcherTask \<Rightarrow> py_error + (bool \<times> MyNetworkFetcherTask)" where
  "run_try task =
     (case parsed_reply task of
        None \<Rightarrow> Inl AttributeError
      | Some parsed \<Rightarrow>
          (case reply task of
             None \<Rightarrow> Inl AttributeError
           | Some r \<Rightarrow> Inr (qt_error parsed = None, task\<lparr> reply := None \<rparr>)))"

definition disconnect ::
  "nat \<Rightarrow> QgsNetworkAccessManager \<Rightarrow> py_error + QgsNetworkAccessManager" where
  "disconnect self nam =
     (if self \<in> set (finished_slots nam)
      then Inr (nam\<lparr> finished_slots := remove1 self (finished_slots nam) \<rparr>)
      else Inl TypeError)"

record run_outcome =
  result :: bool
  task_state :: MyNetworkFetcherTask
  nam_state :: QgsNetworkAccessManager
  signals :: "task_signal list"

definition run_finish ::
  "nat \<Rightarrow> QgsNetworkAccessManager \<Rightarrow> task_signal list \<Rightarrow> bool \<Rightarrow> MyNetworkFetcherTask \<Rightarrow>
   py_error + run_outcome" where
  "run_finish self nam emitted_so_far res task =
     (case disconnect self nam of
        Inl e \<Rightarrow> Inl e
      | Inr nam' \<Rightarrow>
          Inr \<lparr> result = res, task_state = task, nam_state = nam',
                signals = emitted_so_far @ [request_finished] \<rparr>)"

definition run ::
  "platform \<Rightarrow> nat \<Rightarrow> MyNetworkFetcherTask \<Rightarrow> QgsNetworkAccessManager \<Rightarrow>
   (nat \<times> QgsNetworkReplyContent) list \<Rightarrow> py_error + run_outcome" where
  "run env self task nam deliveries =
     (let received = (if self \<in> set (finished_slots nam) then deliveries else []);
          waited = wait_for_signal env request_parsed default_timeout (issue_request env)
                     (authenticate env task) received
      in case run_try (task_after waited) of
           Inr (res, task') \<Rightarrow> run_finish self nam (emitted waited) res task'
         | Inl e \<Rightarrow>
             if e = AttributeError
             then run_finish self nam (emitted waited) False (task_after waited)
             else Inl e)"

section \<open>apiclient/base.py: BaseGeonodeClient\<close>

record BaseGeonodeClient =
  auth_config :: string
  base_url :: string
  network_fetcher_task :: "MyNetworkFetcherTask option"


definition client_init :: "string \<Rightarrow> string option \<Rightarrow> BaseGeonodeClient" where
  "client_init base_url_arg auth_config_arg =
     \<lparr> auth_config = py_or auth_config_arg [],
       base_url = rstrip base_url_arg ''/'',
       network_fetcher_task = None \<rparr>"





section \<open>gui/geonode_source_select_provider.py: paging of the search widget\<close>

text \<open>
  The part of \<open>GeonodeDataSourceWidget\<close> the paging code reads and writes: the page
  counter, the three buttons' enabled flags, the results label, the message bar, and the
  searches handed to the client (\<open>client.get_layers(page=self.current_page)\<close>), oldest
  first. The label's text is kept as the format's arguments rather than as the
  translated string. The calls \<open>search_geonode\<close> makes into the connection manager and
  the client stand after every assignment to \<open>current_page\<close>; of them only the page
  handed to \<open>get_layers\<close> is kept.
\<close>

datatype results_label =
    LabelCleared
  | ShowingPage int int int
  | NoResultsFound

record widget =
  current_page :: int
  search_btn_enabled :: bool
  next_btn_enabled :: bool
  previous_btn_enabled :: bool
  resultsLabel :: results_label
  message_bar :: "string list"
  searches :: "int list"

text \<open>The state \<open>__init__\<close> leaves: page 1, both paging buttons disabled.\<close>

definition widget_init :: "bool \<Rightarrow> widget" where
  "widget_init has_connections =
     \<lparr> current_page = 1,
       search_btn_enabled = has_connections,
       next_btn_enabled = False,
       previous_btn_enabled = False,
       resultsLabel = LabelCleared,
       message_bar = [],
       searches = [] \<rparr>"

definition search_geonode :: "widget \<Rightarrow> widget" where
  "search_geonode w =
     w\<lparr> search_btn_enabled := False,
        next_btn_enabled := False,
        previous_btn_enabled := False,
        message_bar := message_bar w @ [''Searching...''],
        searches := searches w @ [current_page w] \<rparr>"

definition request_next_page :: "widget \<Rightarrow> widget" where
  "request_next_page w = search_geonode (w\<lparr> current_page := current_page w + 1 \<rparr>)"

definition request_previous_page :: "widget \<Rightarrow> widget" where
  "request_previous_page w =
     search_geonode (w\<lparr> current_page := max (current_page w - 1) 1 \<rparr>)"

text \<open>A sequence of clicks on the two paging buttons, run from left to right.\<close>

datatype page_request = NextPage | PreviousPage

fun page_step :: "widget \<Rightarrow> page_request \<Rightarrow> widget" where
  "page_step w NextPage = request_next_page w"
| "page_step w PreviousPage = request_previous_page w"

definition run_requests :: "widget \<Rightarrow> page_request list \<Rightarrow> widget" where
  "run_requests w rs = foldl page_step w rs"




section \<open>Concrete inputs\<close>

text \<open>
  A platform, a request and replies to run the definitions on. The manager numbers the
  GET 7 and the POST 8; the parser of this platform reports no transport error and
  status 200 for every reply. \<open>spec_platform\<close> is the same with the parser modelled
  from the specification.
\<close>

definition example_platform :: platform where
  "example_platform =
     \<lparr> updateNetworkRequest =
         (\<lambda>req cfg. req\<lparr> raw_headers := (''Authorization'', cfg) # raw_headers req \<rparr>),
       parse_reply =
         (\<lambda>r. \<lparr> http_status_code = Some 200, http_status_reason = Some ''OK'',
                 qt_error = None \<rparr>),
       nam_get = (\<lambda>req. \<lparr> requestId_property = 7, readAll = ''{}'' \<rparr>),
       nam_post = (\<lambda>req body. \<lparr> requestId_property = 8, readAll = ''{}'' \<rparr>),
       setContent =
         (\<lambda>raw namespaces.
            case raw of
              None \<Rightarrow> Inl TypeError
            | Some bytes \<Rightarrow>
                if bytes = ''<StyledLayerDescriptor/>''
                then Inr (True, \<lparr> documentElement =
                                     Some (QDomElement ''StyledLayerDescriptor'' []) \<rparr>)
                else Inr (False, \<lparr> documentElement = None \<rparr>)) \<rparr>"


definition example_request :: QNetworkRequest where
  "example_request = \<lparr> url = ''https://demo.geonode.org/api/v2/layers'', raw_headers = [] \<rparr>"

definition example_nam :: QgsNetworkAccessManager where
  "example_nam = \<lparr> redirectPolicy = ManualRedirectPolicy, finished_slots = [] \<rparr>"

definition example_task :: MyNetworkFetcherTask where
  "example_task = fst (task_init 1 example_request None None None None example_nam)"

definition example_task_nam :: QgsNetworkAccessManager where
  "example_task_nam = snd (task_init 1 example_request None None None None example_nam)"

definition reply_7_ok :: QgsNetworkReplyContent where
  "reply_7_ok = \<lparr> requestId = 7, outcome = HttpResponse 200 ''OK'', content = ''{}'' \<rparr>"


definition reply_9_other :: QgsNetworkReplyContent where
  "reply_9_other = \<lparr> requestId = 9, outcome = HttpResponse 200 ''OK'', content = ''token'' \<rparr>"





section \<open>Properties\<close>

subsection \<open>The client's constructor\<close>

lemma takeWhile_eq_replicate:
  "takeWhile (\<lambda>x. x = c) xs = replicate (length (takeWhile (\<lambda>x. x = c) xs)) c"
  by (induction xs) auto

lemma rstrip_suffix: "\<exists>n. s = rstrip s [c] @ replicate n c"
proof -
  let ?P = "\<lambda>x. x = c"
  have "rev s = takeWhile ?P (rev s) @ dropWhile ?P (rev s)"
    by simp
  then have "s = rev (dropWhile ?P (rev s)) @ rev (takeWhile ?P (rev s))"
    by (metis rev_append rev_rev_ident)
  moreover have "rev (takeWhile ?P (rev s)) = replicate (length (takeWhile ?P (rev s))) c"
    using takeWhile_eq_replicate [of c "rev s"] by (metis rev_replicate)
  ultimately show ?thesis
    unfolding rstrip_def by auto
qed

lemma rstrip_no_trailing: "rstrip s [c] \<noteq> p @ [c]"
proof
  assume a: "rstrip s [c] = p @ [c]"
  let ?d = "dropWhile (\<lambda>x. x \<in> set [c]) (rev s)"
  from a have "?d = c # rev p"
    unfolding rstrip_def
    by (metis rev_append rev_rev_ident rev_singleton_conv append_Cons append_Nil)
  then have "?d \<noteq> []" and "hd ?d = c" by simp_all
  then show False
    using hd_dropWhile [of "\<lambda>x. x \<in> set [c]" "rev s"] by simp
qed

text \<open>
  C10. The client stores \<open>base_url.rstrip("/")\<close>: the input is the stored string
  followed by slashes only, and the stored string does not end in a slash. It stores
  \<open>auth_config or ""\<close>: the input when that is truthy, and the empty string when it is
  \<open>None\<close> or the empty string.
\<close>

theorem client_init_fields:
  "base_url (client_init b a) = rstrip b ''/''
   \<and> (\<exists>n. b = base_url (client_init b a) @ replicate n (CHR ''/''))
   \<and> (\<forall>p. base_url (client_init b a) \<noteq> p @ ''/'')
   \<and> (truthy a \<longrightarrow> a = Some (auth_config (client_init b a)))
   \<and> (\<not> truthy a \<longrightarrow> auth_config (client_init b a) = [])
   \<and> auth_config (client_init b None) = []"
  using rstrip_suffix [of b "CHR ''/''"] rstrip_no_trailing [of b "CHR ''/''"]
  by (auto simp: client_init_def py_or_def truthy_def split: option.splits)

theorem client_init_fields_witness:
  "client_init ''https://demo.geonode.org///'' (Some ''cfg1'')
     = \<lparr> auth_config = ''cfg1'', base_url = ''https://demo.geonode.org'',
         network_fetcher_task = None \<rparr>
   \<and> truthy (Some ''cfg1'')
   \<and> Some ''cfg1''
       = Some (auth_config (client_init ''https://demo.geonode.org///'' (Some ''cfg1'')))
   \<and> \<not> truthy (Some [])
   \<and> auth_config (client_init ''https://demo.geonode.org///'' (Some [])) = []"
  using client_init_fields [of "''https://demo.geonode.org///''" "Some ''cfg1''"]
    client_init_fields [of "''https://demo.geonode.org///''" "Some []"]
  by (simp add: client_init_def py_or_def truthy_def rstrip_def)

subsection \<open>Paging of the search widget\<close>

lemma request_next_page_current: "current_page (request_next_page w) = current_page w + 1"
  by (simp add: request_next_page_def search_geonode_def)

lemma request_previous_page_current:
  "current_page (request_previous_page w) = max (current_page w - 1) 1"
  by (simp add: request_previous_page_def search_geonode_def)

lemma page_step_keeps: "1 \<le> current_page w \<Longrightarrow> 1 \<le> current_page (page_step w r)"
  by (cases r) (simp_all add: request_next_page_current request_previous_page_current)

lemma foldl_page_step_keeps:
  "1 \<le> current_page w \<Longrightarrow> 1 \<le> current_page (foldl page_step w rs)"
  by (induction rs arbitrary: w) (simp_all add: page_step_keeps)

text \<open>
  C9. After any sequence of \<open>request_next_page\<close> and \<open>request_previous_page\<close> calls on
  a widget in the state its constructor leaves, \<open>current_page\<close> is at least 1; and
  \<open>request_previous_page\<close> on page 1 stays on page 1.
\<close>

theorem current_page_at_least_one:
  "1 \<le> current_page (run_requests (widget_init c) rs)
   \<and> (current_page w = 1 \<longrightarrow> current_page (request_previous_page w) = 1)"
  by (simp add: run_requests_def foldl_page_step_keeps widget_init_def
      request_previous_page_current)

theorem current_page_at_least_one_witness:
  "1 \<le> current_page (run_requests (widget_init True)
          [PreviousPage, NextPage, PreviousPage, PreviousPage])
   \<and> current_page (widget_init True) = 1
   \<and> current_page (request_previous_page (widget_init True)) = 1"
  using current_page_at_least_one
    [of True "[PreviousPage, NextPage, PreviousPage, PreviousPage]" "widget_init True"]
  by (simp add: widget_init_def)



subsection \<open>Constructing a task\<close>

text \<open>
  C7. Constructing a task writes the task's redirect policy into the shared access
  manager, whatever the manager held; a task constructed with no policy has
  \<open>NoLessSafeRedirectPolicy\<close> and writes that; and after two constructions the manager
  holds the second task's policy, while the first task still records its own.
\<close>

theorem task_init_sets_shared_policy:
  "redirectPolicy (snd (task_init self req payload auth descr (Some p) nam)) = p
   \<and> redirect_policy (fst (task_init self req payload auth descr None nam))
       = NoLessSafeRedirectPolicy
   \<and> redirectPolicy (snd (task_init self req payload auth descr None nam))
       = NoLessSafeRedirectPolicy
   \<and> redirectPolicy (snd (task_init self2 req2 payload2 auth2 descr2 (Some p2)
        (snd (task_init self req payload auth descr (Some p) nam)))) = p2
   \<and> redirect_policy (fst (task_init self req payload auth descr (Some p) nam)) = p"
  by (simp add: task_init_def Let_def)

subsection \<open>The nested event loop and the task's run\<close>

text \<open>
  The loop, for a task whose reply is bound and that awaits \<open>request_parsed\<close>: it
  ends at the first matching delivery that arrives before the timer fires, and at the
  timer otherwise.
\<close>

lemma first_match_Nil: "first_match timeout r [] = None"
  by (simp add: first_match_def)

lemma first_match_Cons:
  "first_match timeout r ((arrival, d) # evs) =
     (if timeout \<le> arrival then None
      else if reply_matches d r then Some (arrival, d)
      else first_match timeout r evs)"
  by (simp add: first_match_def)

lemma first_match_SomeD:
  "first_match timeout r evs = Some (arrival, d) \<Longrightarrow>
     arrival < timeout \<and> reply_matches d r \<and> (arrival, d) \<in> set evs"
proof (induction evs)
  case Nil
  then show ?case by (simp add: first_match_Nil)
next
  case (Cons e evs)
  obtain a' d' where e: "e = (a', d')" by (cases e)
  from Cons show ?case
    unfolding e first_match_Cons by (auto split: if_splits)
qed

lemma first_match_NoneI:
  "\<forall>(arrival, d) \<in> set evs. arrival < timeout \<longrightarrow> \<not> reply_matches d r \<Longrightarrow>
     first_match timeout r evs = None"
proof (induction evs)
  case Nil
  then show ?case by (simp add: first_match_Nil)
next
  case (Cons e evs)
  obtain a' d' where e: "e = (a', d')" by (cases e)
  from Cons show ?case
    unfolding e first_match_Cons by auto
qed

lemma request_done_match:
  "reply t = Some r \<Longrightarrow> reply_matches d r \<Longrightarrow>
     request_done env t d =
       (t\<lparr> reply_content := Some (readAll r), parsed_reply := Some (parse_reply env d) \<rparr>,
        [request_parsed])"
  by (simp add: request_done_def)

lemma request_done_no_match:
  "reply t = Some r \<Longrightarrow> \<not> reply_matches d r \<Longrightarrow> request_done env t d = (t, [])"
  by (simp add: request_done_def)

lemma exec_loop_request_parsed:
  assumes "reply t = Some r"
  shows "exec_loop env request_parsed timeout t evs =
     (case first_match timeout r evs of
        None \<Rightarrow>
          \<lparr> quit_by = TimerFired, quit_at = timeout, task_after = t, emitted = [] \<rparr>
      | Some (arrival, d) \<Rightarrow>
          \<lparr> quit_by = SignalEmitted, quit_at = arrival,
            task_after = t\<lparr> reply_content := Some (readAll r),
                            parsed_reply := Some (parse_reply env d) \<rparr>,
            emitted = [request_parsed] \<rparr>)"
proof (induction evs)
  case Nil
  show ?case by (simp add: first_match_Nil)
next
  case (Cons e evs)
  obtain a' d' where e: "e = (a', d')" by (cases e)
  show ?case
  proof (cases "timeout \<le> a'")
    case True
    then show ?thesis unfolding e by (simp add: first_match_Cons)
  next
    case late: False
    show ?thesis
    proof (cases "reply_matches d' r")
      case True
      with late show ?thesis
        unfolding e by (simp add: first_match_Cons request_done_match [OF assms])
    next
      case False
      with late Cons show ?thesis
        unfolding e
        by (simp add: first_match_Cons request_done_no_match [OF assms] split: option.splits)
    qed
  qed
qed

lemma exec_loop_bounds:
  "quit_at (exec_loop env sg timeout t evs) \<le> timeout
   \<and> (quit_by (exec_loop env sg timeout t evs) = TimerFired \<longrightarrow>
        quit_at (exec_loop env sg timeout t evs) = timeout)
   \<and> (quit_by (exec_loop env sg timeout t evs) = SignalEmitted \<longrightarrow>
        quit_at (exec_loop env sg timeout t evs) < timeout
        \<and> sg \<in> set (emitted (exec_loop env sg timeout t evs)))"
proof (induction evs arbitrary: t)
  case Nil
  show ?case by simp
next
  case (Cons e evs)
  obtain a' d' where e: "e = (a', d')" by (cases e)
  obtain t' sigs where rd: "request_done env t d' = (t', sigs)" by (cases "request_done env t d'")
  show ?case
    using Cons [of t'] unfolding e by (simp add: rd Let_def)
qed

lemma issue_request_reply: "reply (issue_request env t) = Some (send_request env t)"
  by (simp add: issue_request_def)

lemma issue_request_parsed: "parsed_reply (issue_request env t) = parsed_reply t"
  by (simp add: issue_request_def)

lemma authenticate_parsed: "parsed_reply (authenticate env t) = parsed_reply t"
  by (simp add: authenticate_def split: option.splits)

lemma run_timed_out:
  assumes "self \<in> set (finished_slots nam)"
    and "first_match default_timeout (send_request env (authenticate env t)) evs = None"
  shows "run env self t nam evs =
     Inr \<lparr> result = (case parsed_reply t of None \<Rightarrow> False | Some p \<Rightarrow> qt_error p = None),
           task_state = (case parsed_reply t of
                           None \<Rightarrow> issue_request env (authenticate env t)
                         | Some p \<Rightarrow> (issue_request env (authenticate env t))\<lparr> reply := None \<rparr>),
           nam_state = nam\<lparr> finished_slots := remove1 self (finished_slots nam) \<rparr>,
           signals = [request_finished] \<rparr>"
  using assms
  by (simp add: run_def wait_for_signal_def
      exec_loop_request_parsed [OF issue_request_reply]
      run_try_def run_finish_def disconnect_def issue_request_parsed authenticate_parsed
      issue_request_reply split: option.splits)

lemma run_matched:
  assumes "self \<in> set (finished_slots nam)"
    and "first_match default_timeout (send_request env (authenticate env t)) evs = Some (arrival, d)"
  shows "run env self t nam evs =
     Inr \<lparr> result = (qt_error (parse_reply env d) = None),
           task_state = (issue_request env (authenticate env t))
             \<lparr> reply_content := Some (readAll (send_request env (authenticate env t))),
               parsed_reply := Some (parse_reply env d),
               reply := None \<rparr>,
           nam_state = nam\<lparr> finished_slots := remove1 self (finished_slots nam) \<rparr>,
           signals = [request_parsed, request_finished] \<rparr>"
  using assms
  by (simp add: run_def wait_for_signal_def
      exec_loop_request_parsed [OF issue_request_reply]
      run_try_def run_finish_def disconnect_def issue_request_reply)

lemma request_done_ignored:
  assumes "reply t = None \<or> (\<exists>r. reply t = Some r \<and> requestId d \<noteq> requestId_property r)"
  shows "request_done env t d = (t, [])"
  using assms by (auto simp: request_done_def reply_matches_def split: option.splits)

text \<open>
  C2. A delivery of the shared completion signal whose request id is not the id of the
  reply the task initiated, or that arrives while the task has no bound reply, leaves
  the task as it was (\<open>reply_content\<close> and \<open>parsed_reply\<close> among its fields), emits
  nothing, and does not end the task's wait: the loop goes on as if the delivery had not
  been made.
\<close>

theorem request_done_ignores_other_replies:
  assumes "reply t = None \<or> (\<exists>r. reply t = Some r \<and> requestId d \<noteq> requestId_property r)"
  shows "request_done env t d = (t, [])
    \<and> reply_content (fst (request_done env t d)) = reply_content t
    \<and> parsed_reply (fst (request_done env t d)) = parsed_reply t
    \<and> request_parsed \<notin> set (snd (request_done env t d))
    \<and> (arrival < timeout \<longrightarrow>
         exec_loop env request_parsed timeout t ((arrival, d) # deliveries)
           = exec_loop env request_parsed timeout t deliveries)"
  using request_done_ignored [OF assms, of env] by simp

theorem request_done_ignores_other_replies_witness:
  "reply (issue_request example_platform example_task)
     = Some \<lparr> requestId_property = 7, readAll = ''{}'' \<rparr>
   \<and> requestId reply_9_other \<noteq> 7
   \<and> request_done example_platform (issue_request example_platform example_task) reply_9_other
       = (issue_request example_platform example_task, [])
   \<and> (120::nat) < 10000
   \<and> exec_loop example_platform request_parsed 10000
         (issue_request example_platform example_task) [(120, reply_9_other)]
       = \<lparr> quit_by = TimerFired, quit_at = 10000,
           task_after = issue_request example_platform example_task, emitted = [] \<rparr>"
proof -
  have r: "reply (issue_request example_platform example_task)
             = Some \<lparr> requestId_property = 7, readAll = ''{}'' \<rparr>"
    by (simp add: issue_request_def send_request_def example_task_def task_init_def Let_def
        example_platform_def)
  have i: "requestId reply_9_other \<noteq> 7"
    by (simp add: reply_9_other_def)
  have h: "reply (issue_request example_platform example_task) = None
           \<or> (\<exists>r. reply (issue_request example_platform example_task) = Some r
                \<and> requestId reply_9_other \<noteq> requestId_property r)"
    using r i by simp
  from request_done_ignores_other_replies [OF h, of example_platform 120 10000 "[]"] r i
  show ?thesis by simp
qed

text \<open>
  C1. For a task that is connected to the shared signal (as its constructor leaves it),
  \<open>run\<close> returns and raises nothing; its result is \<open>True\<close> exactly when the task's
  parsed reply is bound and its \<open>qt_error\<close> is \<open>None\<close>; and when the parsed reply was
  not bound before and no matching delivery arrives before the timeout, it stays
  unbound and the result is \<open>False\<close>.
\<close>

theorem run_result_iff_no_transport_error:
  assumes "self \<in> set (finished_slots nam)"
  shows "\<exists>out. run env self t nam evs = Inr out
     \<and> (result out \<longleftrightarrow> (\<exists>p. parsed_reply (task_state out) = Some p \<and> qt_error p = None))
     \<and> (parsed_reply t = None
          \<and> (\<forall>(arrival, d) \<in> set evs. arrival < default_timeout \<longrightarrow>
                \<not> reply_matches d (send_request env (authenticate env t)))
        \<longrightarrow> parsed_reply (task_state out) = None \<and> \<not> result out)"
proof (cases "first_match default_timeout (send_request env (authenticate env t)) evs")
  case None
  show ?thesis
    unfolding run_timed_out [OF assms None]
    by (simp add: issue_request_parsed authenticate_parsed split: option.splits)
next
  case (Some x)
  obtain arrival d where x: "x = (arrival, d)" by (cases x)
  have "\<not> (\<forall>(arrival, d) \<in> set evs. arrival < default_timeout \<longrightarrow>
            \<not> reply_matches d (send_request env (authenticate env t)))"
    using first_match_SomeD [OF Some [unfolded x]] by blast
  then show ?thesis
    unfolding run_matched [OF assms Some [unfolded x]] by simp
qed

theorem run_result_iff_no_transport_error_witness:
  "1 \<in> set (finished_slots example_task_nam)
   \<and> parsed_reply example_task = None
   \<and> (\<exists>out. run example_platform 1 example_task example_task_nam [(120, reply_9_other)] = Inr out
         \<and> parsed_reply (task_state out) = None \<and> \<not> result out)
   \<and> (\<exists>out. run example_platform 1 example_task example_task_nam
                [(120, reply_9_other), (300, reply_7_ok)] = Inr out
         \<and> result out
         \<and> parsed_reply (task_state out)
             = Some \<lparr> http_status_code = Some 200, http_status_reason = Some ''OK'',
                      qt_error = None \<rparr>)"
proof -
  have c: "1 \<in> set (finished_slots example_task_nam)"
    by (simp add: example_task_nam_def task_init_def Let_def)
  have s: "send_request example_platform (authenticate example_platform example_task)
             = \<lparr> requestId_property = 7, readAll = ''{}'' \<rparr>"
    by (simp add: send_request_def authenticate_def example_task_def task_init_def Let_def
        example_platform_def)
  have p: "parsed_reply example_task = None"
    by (simp add: example_task_def task_init_def Let_def)
  have n: "\<forall>(arrival, d) \<in> set [(120::nat, reply_9_other)]. arrival < default_timeout \<longrightarrow>
             \<not> reply_matches d (send_request example_platform
                                   (authenticate example_platform example_task))"
    by (simp add: s reply_matches_def reply_9_other_def)
  have m: "first_match default_timeout
             (send_request example_platform (authenticate example_platform example_task))
             [(120, reply_9_other), (300, reply_7_ok)] = Some (300, reply_7_ok)"
    by (simp add: s first_match_Cons reply_matches_def reply_9_other_def reply_7_ok_def
        default_timeout_def)
  from run_result_iff_no_transport_error [OF c, of example_platform example_task
      "[(120, reply_9_other)]"] p n
  have a: "\<exists>out. run example_platform 1 example_task example_task_nam [(120, reply_9_other)] = Inr out
         \<and> parsed_reply (task_state out) = None \<and> \<not> result out"
    by blast
  have b: "\<exists>out. run example_platform 1 example_task example_task_nam
                [(120, reply_9_other), (300, reply_7_ok)] = Inr out
         \<and> result out
         \<and> parsed_reply (task_state out)
             = Some \<lparr> http_status_code = Some 200, http_status_reason = Some ''OK'',
                      qt_error = None \<rparr>"
    unfolding run_matched [OF c m] by (simp add: example_platform_def)
  from c p a b show ?thesis by blast
qed

text \<open>
  C3, as stated, fails: when no matching completion arrives before the timeout, \<open>run\<close>
  emits \<open>request_finished\<close> and never \<open>request_parsed\<close>.
\<close>

theorem run_timeout_emits_no_request_parsed:
  "run example_platform 1 example_task example_task_nam [(120, reply_9_other)]
     = Inr \<lparr> result = False,
             task_state = example_task
               \<lparr> reply := Some \<lparr> requestId_property = 7, readAll = ''{}'' \<rparr> \<rparr>,
             nam_state = \<lparr> redirectPolicy = NoLessSafeRedirectPolicy, finished_slots = [] \<rparr>,
             signals = [request_finished] \<rparr>"
proof -
  have c: "1 \<in> set (finished_slots example_task_nam)"
    by (simp add: example_task_nam_def task_init_def Let_def)
  have s: "send_request example_platform (authenticate example_platform example_task)
             = \<lparr> requestId_property = 7, readAll = ''{}'' \<rparr>"
    by (simp add: send_request_def authenticate_def example_task_def task_init_def Let_def
        example_platform_def)
  have m: "first_match default_timeout
             (send_request example_platform (authenticate example_platform example_task))
             [(120, reply_9_other)] = None"
    by (simp add: s first_match_Cons first_match_Nil reply_matches_def reply_9_other_def)
  show ?thesis
    unfolding run_timed_out [OF c m]
    by (simp add: issue_request_def send_request_def authenticate_def example_task_def
        example_task_nam_def example_nam_def task_init_def Let_def example_platform_def)
qed

text \<open>
  C3, amended. A run of a connected task emits \<open>request_finished\<close> exactly once, as
  its last signal, and \<open>request_parsed\<close> at most once and before it: once when a matching
  completion is delivered before the timeout, and not at all otherwise.
\<close>

theorem run_signal_order:
  assumes "self \<in> set (finished_slots nam)"
  shows "\<exists>out. run env self t nam evs = Inr out
     \<and> (signals out = [request_finished] \<or> signals out = [request_parsed, request_finished])
     \<and> (signals out = [request_parsed, request_finished]
          \<longleftrightarrow> (\<exists>x. first_match default_timeout (send_request env (authenticate env t)) evs
                      = Some x))"
proof (cases "first_match default_timeout (send_request env (authenticate env t)) evs")
  case None
  show ?thesis
    unfolding run_timed_out [OF assms None] by (simp add: None)
next
  case (Some x)
  obtain arrival d where x: "x = (arrival, d)" by (cases x)
  show ?thesis
    unfolding run_matched [OF assms Some [unfolded x]] by (simp add: Some)
qed

theorem run_signal_order_witness:
  "1 \<in> set (finished_slots example_task_nam)
   \<and> (\<exists>out. run example_platform 1 example_task example_task_nam
                [(120, reply_9_other), (300, reply_7_ok)] = Inr out
         \<and> signals out = [request_parsed, request_finished])"
proof -
  have c: "1 \<in> set (finished_slots example_task_nam)"
    by (simp add: example_task_nam_def task_init_def Let_def)
  have s: "send_request example_platform (authenticate example_platform example_task)
             = \<lparr> requestId_property = 7, readAll = ''{}'' \<rparr>"
    by (simp add: send_request_def authenticate_def example_task_def task_init_def Let_def
        example_platform_def)
  have m: "first_match default_timeout
             (send_request example_platform (authenticate example_platform example_task))
             [(120, reply_9_other), (300, reply_7_ok)] = Some (300, reply_7_ok)"
    by (simp add: s first_match_Cons reply_matches_def reply_9_other_def reply_7_ok_def
        default_timeout_def)
  from run_signal_order [OF c, of example_platform example_task
      "[(120, reply_9_other), (300, reply_7_ok)]"] m
  have "\<exists>out. run example_platform 1 example_task example_task_nam
                [(120, reply_9_other), (300, reply_7_ok)] = Inr out
         \<and> signals out = [request_parsed, request_finished]"
    by auto
  with c show ?thesis by blast
qed

text \<open>
  C4. \<open>wait_for_signal\<close> always returns, no later than the timeout: at the timeout
  when the timer ends the loop, and earlier, at the delivery that emitted the awaited
  signal, when the signal ends it. Awaiting \<open>request_parsed\<close> for a bound reply, the
  signal ends the loop exactly when a matching delivery arrives before the timeout, and
  then at that delivery's arrival. The timeout \<open>run\<close> passes is the default of 10000
  milliseconds, and a run whose wait is ended by the timer, on a task with no parsed
  reply, returns \<open>False\<close> and raises nothing.
\<close>

theorem wait_for_signal_returns:
  assumes "w = wait_for_signal env sg timeout body t evs"
  shows "quit_at w \<le> timeout
     \<and> (quit_by w = TimerFired \<longrightarrow> quit_at w = timeout)
     \<and> (quit_by w = SignalEmitted \<longrightarrow> quit_at w < timeout \<and> sg \<in> set (emitted w))
     \<and> (sg = request_parsed \<and> reply (body t) = Some r \<longrightarrow>
          (quit_by w = SignalEmitted \<longleftrightarrow> (\<exists>x. first_match timeout r evs = Some x))
          \<and> (\<forall>arrival d. first_match timeout r evs = Some (arrival, d) \<longrightarrow> quit_at w = arrival))
     \<and> default_timeout = 10000
     \<and> (self \<in> set (finished_slots nam) \<and> parsed_reply t = None
          \<and> quit_by (wait_for_signal env request_parsed default_timeout (issue_request env)
                       (authenticate env t) evs) = TimerFired
        \<longrightarrow> (\<exists>out. run env self t nam evs = Inr out \<and> \<not> result out))"
proof -
  have bounds: "quit_at w \<le> timeout
     \<and> (quit_by w = TimerFired \<longrightarrow> quit_at w = timeout)
     \<and> (quit_by w = SignalEmitted \<longrightarrow> quit_at w < timeout \<and> sg \<in> set (emitted w))"
    unfolding assms wait_for_signal_def by (rule exec_loop_bounds)
  have awaited: "sg = request_parsed \<and> reply (body t) = Some r \<longrightarrow>
          (quit_by w = SignalEmitted \<longleftrightarrow> (\<exists>x. first_match timeout r evs = Some x))
          \<and> (\<forall>arrival d. first_match timeout r evs = Some (arrival, d) \<longrightarrow> quit_at w = arrival)"
  proof
    assume a: "sg = request_parsed \<and> reply (body t) = Some r"
    then have b: "reply (body t) = Some r" and s: "sg = request_parsed" by simp_all
    show "(quit_by w = SignalEmitted \<longleftrightarrow> (\<exists>x. first_match timeout r evs = Some x))
          \<and> (\<forall>arrival d. first_match timeout r evs = Some (arrival, d) \<longrightarrow> quit_at w = arrival)"
      unfolding assms wait_for_signal_def s exec_loop_request_parsed [OF b]
      by (auto split: option.splits)
  qed
  have failure: "self \<in> set (finished_slots nam) \<and> parsed_reply t = None
          \<and> quit_by (wait_for_signal env request_parsed default_timeout (issue_request env)
                       (authenticate env t) evs) = TimerFired
        \<longrightarrow> (\<exists>out. run env self t nam evs = Inr out \<and> \<not> result out)"
  proof
    assume a: "self \<in> set (finished_slots nam) \<and> parsed_reply t = None
          \<and> quit_by (wait_for_signal env request_parsed default_timeout (issue_request env)
                       (authenticate env t) evs) = TimerFired"
    then have c: "self \<in> set (finished_slots nam)" and p: "parsed_reply t = None"
      and q: "quit_by (exec_loop env request_parsed default_timeout
                (issue_request env (authenticate env t)) evs) = TimerFired"
      by (simp_all add: wait_for_signal_def)
    have n: "first_match default_timeout (send_request env (authenticate env t)) evs = None"
      using q unfolding exec_loop_request_parsed [OF issue_request_reply]
      by (auto split: option.splits)
    show "\<exists>out. run env self t nam evs = Inr out \<and> \<not> result out"
      unfolding run_timed_out [OF c n] by (simp add: p)
  qed
  from bounds awaited failure show ?thesis
    by (simp add: default_timeout_def)
qed

theorem wait_for_signal_returns_witness:
  "quit_by (wait_for_signal example_platform request_parsed default_timeout
              (issue_request example_platform) example_task [(120, reply_9_other)]) = TimerFired
   \<and> quit_at (wait_for_signal example_platform request_parsed default_timeout
              (issue_request example_platform) example_task [(120, reply_9_other)]) = 10000
   \<and> 1 \<in> set (finished_slots example_task_nam)
   \<and> parsed_reply example_task = None
   \<and> (\<exists>out. run example_platform 1 example_task example_task_nam [(120, reply_9_other)] = Inr out
         \<and> \<not> result out)"
proof -
  have c: "1 \<in> set (finished_slots example_task_nam)"
    by (simp add: example_task_nam_def task_init_def Let_def)
  have p: "parsed_reply example_task = None"
    by (simp add: example_task_def task_init_def Let_def)
  have a: "authenticate example_platform example_task = example_task"
    by (simp add: authenticate_def example_task_def task_init_def Let_def)
  have q: "wait_for_signal example_platform request_parsed default_timeout
              (issue_request example_platform) example_task [(120, reply_9_other)]
           = \<lparr> quit_by = TimerFired, quit_at = 10000,
               task_after = issue_request example_platform example_task, emitted = [] \<rparr>"
    by (simp add: wait_for_signal_def request_done_def reply_matches_def issue_request_def
        send_request_def example_task_def task_init_def Let_def example_platform_def
        reply_9_other_def default_timeout_def)
  from wait_for_signal_returns [OF refl, of example_platform request_parsed default_timeout
      "issue_request example_platform" example_task "[(120, reply_9_other)]"
      "\<lparr> requestId_property = 7, readAll = ''{}'' \<rparr>" 1 example_task_nam] c p a q
  show ?thesis by simp
qed




subsection \<open>Style documents\<close>







end
